theory Spec2Isabelle
  imports Main "HOL-Library.Sublist"
begin

section \<open>Strings\<close>

text \<open>
  A Python \<open>str\<close> is a sequence of code points and \<open>len\<close> counts them. A string is
  modelled as a \<open>char list\<close> in which every \<open>char\<close> is one code point below 256
  (ASCII and Latin-1), so that \<open>length\<close> is \<open>len\<close>. On that range \<open>str.isspace\<close>
  holds for the code points 9..13, 28..32, 133 and 160, and \<open>str.lower\<close> adds 32 to
  the code points 65..90 and 192..222 except 215 and leaves the others alone.
\<close>

definition is_space :: "char \<Rightarrow> bool" where
  "is_space c =
     (let n = (of_char c :: nat)
      in (9 \<le> n \<and> n \<le> 13) \<or> (28 \<le> n \<and> n \<le> 32) \<or> n = 133 \<or> n = 160)"

definition strip :: "string \<Rightarrow> string" where
  \<comment> \<open>\<open>s.strip()\<close>: whitespace removed at both ends\<close>
  "strip s = rev (dropWhile is_space (rev (dropWhile is_space s)))"

definition lower_char :: "char \<Rightarrow> char" where
  "lower_char c =
     (let n = (of_char c :: nat)
      in if (65 \<le> n \<and> n \<le> 90) \<or> (192 \<le> n \<and> n \<le> 222 \<and> n \<noteq> 215)
         then char_of (n + 32) else c)"

definition lower :: "string \<Rightarrow> string" where
  \<comment> \<open>\<open>s.lower()\<close>\<close>
  "lower s = map lower_char s"

fun str_in :: "string \<Rightarrow> string \<Rightarrow> bool" where
  \<comment> \<open>\<open>k in s\<close> on two strings: \<open>k\<close> occurs in \<open>s\<close> as a contiguous substring\<close>
  "str_in k [] = (k = [])"
| "str_in k (c # cs) = (prefix k (c # cs) \<or> str_in k cs)"

definition any_in :: "string list \<Rightarrow> string \<Rightarrow> bool" where
  \<comment> \<open>\<open>any(k in s for k in ks)\<close>\<close>
  "any_in ks s = list_ex (\<lambda>k. str_in k s) ks"

section \<open>Request and response schemas\<close>

text \<open>
  Modelled from the spec: the declarations of ChatMessage, ChatRequest, ChatResponse,
  PlanRequest, PlanResponse and Generation (module \<open>schemas\<close>) are taken from the data
  model of the specification and from the fields that \<open>main.py\<close> reads and writes.
  The role of a message is kept as the string that the code compares with \<open>"user"\<close>.
  An optional field is an \<open>option\<close>.
\<close>

record chat_message =
  role :: string
  content :: string

record chat_request =
  message :: string
  history :: "chat_message list option"

record chat_response =
  reply :: string

datatype http_exception = HTTPException (status_code: nat) (detail: string)

text \<open>The plan is a dictionary literal: strings, lists and nested dictionaries.\<close>

datatype json = JStr string | JList "json list" | JDict "(string \<times> json) list"

fun get :: "json \<Rightarrow> string \<Rightarrow> json option" where
  \<comment> \<open>\<open>d.get(k)\<close>\<close>
  "get (JDict kvs) k = map_of kvs k"
| "get _ k = None"

fun keys :: "json \<Rightarrow> string list" where
  "keys (JDict kvs) = map fst kvs"
| "keys _ = []"

record plan_request =
  idea :: string
  features :: "string list option"

record generation =
  gen_idea :: string
  gen_features :: "string list"
  gen_status :: string
  gen_plan :: json

record plan_response =
  resp_id :: string
  resp_status :: string
  resp_plan :: json

section \<open>The document store gateway\<close>

text \<open>
  Modelled from the spec: \<open>create_document\<close> (module \<open>database\<close>) is an external
  collaborator, \<open>create_document(collection, record) -> id\<close>, whose failures surface
  as catchable errors. It is a parameter of the plan endpoint: a function that takes
  the state of the store and returns the state after the call together with either the
  exception it raised or the identifier it assigned.
\<close>

datatype py_exception = Exception string

type_synonym 'db create_document =
  "string \<Rightarrow> generation \<Rightarrow> 'db \<Rightarrow> (py_exception + string) \<times> 'db"

definition logged :: "'db create_document \<Rightarrow> ('db \<times> (string \<times> generation) list) create_document" where
  \<comment> \<open>a gateway that also records each invocation, in order, beside the store's state\<close>
  "logged cd c g = (\<lambda>(db, calls). case cd c g db of (r, db') \<Rightarrow> (r, (db', calls @ [(c, g)])))"

section \<open>The chat endpoint\<close>

definition greeting_reply :: string where
  "greeting_reply = ''Hey! I'm your AI builder. Tell me what you want to create.''"

definition build_reply :: string where
  "build_reply =
     ''Great! Share your idea, target audience, and key features. '' @
     ''I can draft a plan and spin up a starter in minutes.''"

definition pricing_reply :: string where
  "pricing_reply =
     ''This demo is free. In production, cost depends on features and integrations.''"

definition default_reply :: string where
  "default_reply =
     ''Got it. I can help you plan features, pages, and backend endpoints. '' @
     ''Use the planner below to generate a build plan.''"

definition base_reply :: "string \<Rightarrow> string" where
  \<comment> \<open>the \<open>if\<close>/\<open>elif\<close> chain on the lower-cased message\<close>
  "base_reply low =
     (if any_in [''hello'', ''hi'', ''hey''] low then greeting_reply
      else if any_in [''website'', ''app'', ''build'', ''create''] low then build_reply
      else if any_in [''pricing'', ''cost'', ''price''] low then pricing_reply
      else default_reply)"

definition last_user_of :: "chat_message list \<Rightarrow> string option" where
  \<comment> \<open>\<open>next((m.content for m in reversed(history) if m.role == "user"), None)\<close>\<close>
  "last_user_of h = map_option content (find (\<lambda>m. role m = ''user'') (rev h))"

definition also_noted :: "string \<Rightarrow> string" where
  \<comment> \<open>the f-string appended to the reply; \<open>CHR 0x27\<close> is the single quote\<close>
  "also_noted last_user = '' Also noted: '' @ [CHR 0x27] @ last_user @ [CHR 0x27] @ ''.''"

definition augment :: "string \<Rightarrow> chat_message list option \<Rightarrow> string \<Rightarrow> string" where
  "augment user_msg hist rep =
     (case hist of
        None \<Rightarrow> rep
      | Some h \<Rightarrow>
          if h \<noteq> [] \<and> length h > 0 then
            (case last_user_of h of
               None \<Rightarrow> rep
             | Some last_user \<Rightarrow>
                 if last_user \<noteq> [] \<and> last_user \<noteq> user_msg \<and> length last_user < 120
                 then rep @ also_noted last_user else rep)
          else rep)"

definition chat_endpoint :: "'a chat_request_scheme \<Rightarrow> http_exception + chat_response" where
  "chat_endpoint req =
     (let user_msg = strip (message req) in
      if user_msg = [] then Inl (HTTPException 400 ''Message cannot be empty'')
      else Inr \<lparr>reply = augment user_msg (history req) (base_reply (lower user_msg))\<rparr>)"

section \<open>The plan endpoint\<close>

definition build_plan :: "string \<Rightarrow> string list \<Rightarrow> json" where
  "build_plan idea' features' = JDict [
     (''summary'', JStr (''Plan to build: '' @ idea')),
     (''frontend'', JDict [
        (''stack'', JList [JStr ''Vite + React'', JStr ''TailwindCSS'', JStr ''Lucide Icons'',
                          JStr ''Framer Motion'']),
        (''pages'', JList [JStr ''Home/Hero with 3D Spline'', JStr ''Features'', JStr ''Chatbot'',
                          JStr ''Dashboard (optional)'']),
        (''components'', JList [JStr ''Navbar'', JStr ''Hero'', JStr ''Chatbot'', JStr ''Planner'',
                               JStr ''Footer'']),
        (''api_usage'', JList [JStr ''POST /api/chat'', JStr ''POST /api/plan''])]),
     (''backend'', JDict [
        (''stack'', JList [JStr ''FastAPI'', JStr ''MongoDB'']),
        (''endpoints'', JList [
           JDict [(''route'', JStr ''/api/chat''), (''method'', JStr ''POST''),
                  (''desc'', JStr ''Conversational helper'')],
           JDict [(''route'', JStr ''/api/plan''), (''method'', JStr ''POST''),
                  (''desc'', JStr ''Generate build plan and store'')]]),
        (''collections'', JList [JStr ''generation''])]),
     (''features'', JList (map JStr features')),
     (''next_steps'', JList [
        JStr ''Review and tweak the plan'',
        JStr ''Auto-generate starter components'',
        JStr ''Iterate with the chatbot for refinements''])]"

text \<open>
  \<open>req.features or []\<close> is the list of the request, or the empty list when there is none.
  The \<open>try\<close> block is the one call to \<open>create_document\<close>: an exception gives the
  identifier \<open>no-db\<close>, a return gives the identifier of the store, as a string. The
  endpoint returns its result together with the state in which it leaves the store.
\<close>

definition plan_endpoint ::
  "'db create_document \<Rightarrow> 'a plan_request_scheme \<Rightarrow> 'db \<Rightarrow> (http_exception + plan_response) \<times> 'db" where
  "plan_endpoint create_document req db =
     (let idea' = strip (idea req) in
      if idea' = [] then (Inl (HTTPException 400 ''Idea is required''), db)
      else
        let features' = (case features req of None \<Rightarrow> [] | Some fs \<Rightarrow> fs);
            plan = build_plan idea' features';
            gen = \<lparr>gen_idea = idea', gen_features = features', gen_status = ''planned'',
                   gen_plan = plan\<rparr>;
            (r, db') = create_document ''generation'' gen db;
            inserted_id = (case r of Inl e \<Rightarrow> ''no-db'' | Inr i \<Rightarrow> i)
        in (Inr \<lparr>resp_id = inserted_id, resp_status = ''planned'', resp_plan = plan\<rparr>, db'))"

section \<open>Stores used in the examples\<close>

definition store_ok :: "unit create_document" where
  \<comment> \<open>a store that accepts every document and assigns the identifier \<open>doc-1\<close>\<close>
  "store_ok c g db = (Inr ''doc-1'', db)"

definition store_down :: "unit create_document" where
  \<comment> \<open>a store that is unavailable: every call raises\<close>
  "store_down c g db = (Inl (Exception ''database unavailable''), db)"

section \<open>Properties of the string functions\<close>

lemma str_in_iff: "str_in k s \<longleftrightarrow> (\<exists>p q. s = p @ k @ q)"
proof (induction s)
  case Nil
  then show ?case by auto
next
  case (Cons c cs)
  show ?case
  proof
    assume "str_in k (c # cs)"
    then consider "prefix k (c # cs)" | "str_in k cs" by auto
    then show "\<exists>p q. c # cs = p @ k @ q"
    proof cases
      case 1
      then obtain q where "c # cs = k @ q" by (auto simp: prefix_def)
      then have "c # cs = [] @ k @ q" by simp
      then show ?thesis by blast
    next
      case 2
      with Cons.IH obtain p q where "cs = p @ k @ q" by blast
      then have "c # cs = (c # p) @ k @ q" by simp
      then show ?thesis by blast
    qed
  next
    assume "\<exists>p q. c # cs = p @ k @ q"
    then obtain p q where pq: "c # cs = p @ k @ q" by blast
    show "str_in k (c # cs)"
    proof (cases p)
      case Nil
      with pq have "prefix k (c # cs)" by (simp add: prefix_def)
      then show ?thesis by simp
    next
      case (Cons a p')
      with pq have "cs = p' @ k @ q" by simp
      with Cons.IH have "str_in k cs" by blast
      then show ?thesis by simp
    qed
  qed
qed

text \<open>Stripping leaves nothing exactly when every character is whitespace.\<close>

lemma strip_Nil_iff: "strip s = [] \<longleftrightarrow> (\<forall>c\<in>set s. is_space c)"
proof -
  have "strip s = [] \<longleftrightarrow> (\<forall>c\<in>set (dropWhile is_space s). is_space c)"
    by (simp add: strip_def)
  also have "\<dots> \<longleftrightarrow> dropWhile is_space s = []"
  proof
    assume a: "\<forall>c\<in>set (dropWhile is_space s). is_space c"
    show "dropWhile is_space s = []"
    proof (rule ccontr)
      assume ne: "dropWhile is_space s \<noteq> []"
      then have "\<not> is_space (hd (dropWhile is_space s))" by (rule hd_dropWhile)
      moreover from ne have "hd (dropWhile is_space s) \<in> set (dropWhile is_space s)" by simp
      ultimately show False using a by blast
    qed
  qed (auto dest: set_dropWhileD)
  also have "\<dots> \<longleftrightarrow> (\<forall>c\<in>set s. is_space c)" by simp
  finally show ?thesis .
qed

lemma any_in_iff: "any_in ks s \<longleftrightarrow> (\<exists>k\<in>set ks. \<exists>p q. s = p @ k @ q)"
  by (simp add: any_in_def list_ex_iff str_in_iff)

section \<open>Properties of the chat endpoint\<close>

lemma base_reply_cases:
  "base_reply low \<in> {greeting_reply, build_reply, pricing_reply, default_reply}"
  by (simp add: base_reply_def)

lemma base_reply_nonempty: "base_reply low \<noteq> []"
  using base_reply_cases [of low]
  by (auto simp: greeting_reply_def build_reply_def pricing_reply_def default_reply_def)

lemma augment_prefix: "prefix rep (augment user_msg hist rep)"
  by (simp add: augment_def split: option.split)

lemma augment_nonempty: "rep \<noteq> [] \<Longrightarrow> augment user_msg hist rep \<noteq> []"
  using augment_prefix [of rep user_msg hist] by (auto simp: prefix_def)

lemma chat_endpoint_valid:
  "strip (message req) \<noteq> [] \<Longrightarrow>
     chat_endpoint req =
       Inr \<lparr>reply = augment (strip (message req)) (history req)
                      (base_reply (lower (strip (message req))))\<rparr>"
  by (simp add: chat_endpoint_def Let_def)

lemma chat_endpoint_invalid:
  "strip (message req) = [] \<Longrightarrow>
     chat_endpoint req = Inl (HTTPException 400 ''Message cannot be empty'')"
  by (simp add: chat_endpoint_def)

text \<open>
  C3. For every chat request: if the message is empty or consists only of whitespace,
  the chat endpoint fails with the HTTP error 400 (\<open>Message cannot be empty\<close>);
  otherwise it returns a response whose reply is a non-empty string.
\<close>

theorem chat_empty_message_rejected_else_reply:
  "((\<forall>c\<in>set (message req). is_space c) \<longrightarrow>
      chat_endpoint req = Inl (HTTPException 400 ''Message cannot be empty'')) \<and>
   (\<not> (\<forall>c\<in>set (message req). is_space c) \<longrightarrow>
      (\<exists>resp. chat_endpoint req = Inr resp \<and> reply resp \<noteq> []))"
proof (intro conjI impI)
  assume "\<forall>c\<in>set (message req). is_space c"
  then have "strip (message req) = []" by (simp add: strip_Nil_iff)
  then show "chat_endpoint req = Inl (HTTPException 400 ''Message cannot be empty'')"
    by (rule chat_endpoint_invalid)
next
  assume "\<not> (\<forall>c\<in>set (message req). is_space c)"
  then have "strip (message req) \<noteq> []" by (simp add: strip_Nil_iff)
  then have "chat_endpoint req =
       Inr \<lparr>reply = augment (strip (message req)) (history req)
                      (base_reply (lower (strip (message req))))\<rparr>"
    by (rule chat_endpoint_valid)
  moreover have "augment (strip (message req)) (history req)
                      (base_reply (lower (strip (message req)))) \<noteq> []"
    by (rule augment_nonempty) (rule base_reply_nonempty)
  ultimately show "\<exists>resp. chat_endpoint req = Inr resp \<and> reply resp \<noteq> []" by simp
qed

theorem chat_empty_message_rejected_else_reply_witness:
  "strip ''  '' = [] \<and>
   chat_endpoint \<lparr>message = ''  '', history = None\<rparr> =
     Inl (HTTPException 400 ''Message cannot be empty'') \<and>
   strip ''hello'' = ''hello'' \<and>
   (\<exists>resp. chat_endpoint \<lparr>message = ''hello'', history = None\<rparr> = Inr resp \<and> reply resp \<noteq> [])"
proof -
  have a: "\<forall>c\<in>set ''  ''. is_space c" by (simp add: is_space_def)
  have b: "\<not> (\<forall>c\<in>set ''hello''. is_space c)" by (simp add: is_space_def)
  have c: "strip ''  '' = []" "strip ''hello'' = ''hello''"
    by (simp_all add: strip_def is_space_def)
  show ?thesis
    using a b c
      chat_empty_message_rejected_else_reply [of "\<lparr>message = ''  '', history = None\<rparr>"]
      chat_empty_message_rejected_else_reply [of "\<lparr>message = ''hello'', history = None\<rparr>"]
    by simp
qed

text \<open>
  C4. The reply is chosen from the lower-cased trimmed message by testing the keyword
  lists in a fixed order: greeting words, then build words, then pricing words, then the
  default; the first list with a keyword occurring in the message decides. The reply
  returned starts with the chosen text. In particular a message that contains both a
  greeting keyword and a build keyword gets the greeting reply and not the build reply.
\<close>

theorem chat_keyword_priority:
  assumes "strip (message req) \<noteq> []"
    and "low = lower (strip (message req))"
  shows "\<exists>resp. chat_endpoint req = Inr resp \<and>
     prefix
       (if (\<exists>k\<in>set [''hello'', ''hi'', ''hey'']. \<exists>p q. low = p @ k @ q) then greeting_reply
        else if (\<exists>k\<in>set [''website'', ''app'', ''build'', ''create'']. \<exists>p q. low = p @ k @ q)
          then build_reply
        else if (\<exists>k\<in>set [''pricing'', ''cost'', ''price'']. \<exists>p q. low = p @ k @ q)
          then pricing_reply
        else default_reply)
       (reply resp) \<and>
     ((\<exists>k\<in>set [''hello'', ''hi'', ''hey'']. \<exists>p q. low = p @ k @ q) \<and>
      (\<exists>k\<in>set [''website'', ''app'', ''build'', ''create'']. \<exists>p q. low = p @ k @ q) \<longrightarrow>
        prefix greeting_reply (reply resp) \<and> \<not> prefix build_reply (reply resp))"
proof -
  let ?r = "augment (strip (message req)) (history req) (base_reply low)"
  have run: "chat_endpoint req = Inr \<lparr>reply = ?r\<rparr>"
    using assms by (simp add: chat_endpoint_valid)
  have pre: "prefix (base_reply low) ?r" by (rule augment_prefix)
  have base: "base_reply low =
       (if (\<exists>k\<in>set [''hello'', ''hi'', ''hey'']. \<exists>p q. low = p @ k @ q) then greeting_reply
        else if (\<exists>k\<in>set [''website'', ''app'', ''build'', ''create'']. \<exists>p q. low = p @ k @ q)
          then build_reply
        else if (\<exists>k\<in>set [''pricing'', ''cost'', ''price'']. \<exists>p q. low = p @ k @ q)
          then pricing_reply
        else default_reply)"
    unfolding base_reply_def any_in_iff ..
  have differ: "prefix greeting_reply r \<Longrightarrow> \<not> prefix build_reply r" for r
    by (auto simp: prefix_def greeting_reply_def build_reply_def)
  from pre have sel: "prefix
       (if (\<exists>k\<in>set [''hello'', ''hi'', ''hey'']. \<exists>p q. low = p @ k @ q) then greeting_reply
        else if (\<exists>k\<in>set [''website'', ''app'', ''build'', ''create'']. \<exists>p q. low = p @ k @ q)
          then build_reply
        else if (\<exists>k\<in>set [''pricing'', ''cost'', ''price'']. \<exists>p q. low = p @ k @ q)
          then pricing_reply
        else default_reply) ?r"
    unfolding base .
  have both: "(\<exists>k\<in>set [''hello'', ''hi'', ''hey'']. \<exists>p q. low = p @ k @ q) \<and>
      (\<exists>k\<in>set [''website'', ''app'', ''build'', ''create'']. \<exists>p q. low = p @ k @ q) \<longrightarrow>
        prefix greeting_reply ?r \<and> \<not> prefix build_reply ?r"
  proof
    assume "(\<exists>k\<in>set [''hello'', ''hi'', ''hey'']. \<exists>p q. low = p @ k @ q) \<and>
      (\<exists>k\<in>set [''website'', ''app'', ''build'', ''create'']. \<exists>p q. low = p @ k @ q)"
    then have "base_reply low = greeting_reply" unfolding base by (simp only: if_True)
    with pre have "prefix greeting_reply ?r" by simp
    with differ show "prefix greeting_reply ?r \<and> \<not> prefix build_reply ?r" by blast
  qed
  have eq: "reply \<lparr>reply = ?r\<rparr> = ?r" by simp
  show ?thesis
    by (rule exI [where x = "\<lparr>reply = ?r\<rparr>"], unfold eq)
      (rule conjI [OF run conjI [OF sel both]])
qed

theorem chat_keyword_priority_witness:
  "strip ''hi, I want to build an app'' \<noteq> [] \<and>
   lower (strip ''hi, I want to build an app'') = ''hi, i want to build an app'' \<and>
   ''hi, i want to build an app'' = [] @ ''hi'' @ '', i want to build an app'' \<and>
   ''hi, i want to build an app'' = ''hi, i want to '' @ ''build'' @ '' an app'' \<and>
   chat_endpoint \<lparr>message = ''hi, I want to build an app'', history = None\<rparr> =
     Inr \<lparr>reply = greeting_reply\<rparr> \<and>
   (\<exists>resp. chat_endpoint \<lparr>message = ''hi, I want to build an app'', history = None\<rparr> = Inr resp \<and>
      prefix greeting_reply (reply resp) \<and> \<not> prefix build_reply (reply resp))"
proof -
  have a: "strip ''hi, I want to build an app'' \<noteq> []"
    by (simp add: strip_def is_space_def)
  have "lower (strip ''hi, I want to build an app'') = ''hi, i want to build an app''"
    by (simp add: strip_def is_space_def lower_def lower_char_def char_of_eq_iff)
  then have b: "''hi, i want to build an app'' = lower (strip ''hi, I want to build an app'')"
    by (rule sym)
  have g: "\<exists>k\<in>set [''hello'', ''hi'', ''hey'']. \<exists>p q. ''hi, i want to build an app'' = p @ k @ q"
    using any_in_iff [of "[''hello'', ''hi'', ''hey'']" "''hi, i want to build an app''"]
    by (simp add: any_in_def)
  have w: "\<exists>k\<in>set [''website'', ''app'', ''build'', ''create'']. \<exists>p q. ''hi, i want to build an app'' = p @ k @ q"
    using any_in_iff [of "[''website'', ''app'', ''build'', ''create'']" "''hi, i want to build an app''"]
    by (simp add: any_in_def)
  have run: "chat_endpoint \<lparr>message = ''hi, I want to build an app'', history = None\<rparr> =
     Inr \<lparr>reply = greeting_reply\<rparr>"
    by (simp add: chat_endpoint_def strip_def is_space_def lower_def lower_char_def char_of_eq_iff
        base_reply_def any_in_def augment_def)
  have a': "strip (message \<lparr>message = ''hi, I want to build an app'', history = None\<rparr>) \<noteq> []"
    using a by simp
  have b': "''hi, i want to build an app'' =
      lower (strip (message \<lparr>message = ''hi, I want to build an app'', history = None\<rparr>))"
    using b by simp
  from chat_keyword_priority [OF a' b'] g w
  have "\<exists>resp. chat_endpoint \<lparr>message = ''hi, I want to build an app'', history = None\<rparr> = Inr resp \<and>
      prefix greeting_reply (reply resp) \<and> \<not> prefix build_reply (reply resp)"
    by blast
  with a b run show ?thesis by simp
qed

subsection \<open>The note taken from the history\<close>

text \<open>
  \<open>last_user_of\<close> scans the history from its end: the last message decides when its role
  is \<open>user\<close>, otherwise the messages before it do. So it returns the content of the most
  recent message of the user, when there is one.
\<close>

lemma last_user_of_Nil: "last_user_of [] = None"
  by (simp add: last_user_of_def)

lemma last_user_of_snoc:
  "last_user_of (h @ [m]) = (if role m = ''user'' then Some (content m) else last_user_of h)"
  by (simp add: last_user_of_def)

lemma last_user_of_Some_iff:
  "last_user_of h = Some c \<longleftrightarrow>
     (\<exists>pre m post. h = pre @ m # post \<and> role m = ''user'' \<and> content m = c \<and>
        (\<forall>m'\<in>set post. role m' \<noteq> ''user''))"
proof (induction h rule: rev_induct)
  case Nil
  then show ?case by (simp add: last_user_of_Nil)
next
  case (snoc x xs)
  show ?case
  proof (cases "role x = ''user''")
    case True
    have "(\<exists>pre m post. xs @ [x] = pre @ m # post \<and> role m = ''user'' \<and> content m = c \<and>
        (\<forall>m'\<in>set post. role m' \<noteq> ''user'')) \<longleftrightarrow> content x = c"
    proof
      assume "\<exists>pre m post. xs @ [x] = pre @ m # post \<and> role m = ''user'' \<and> content m = c \<and>
        (\<forall>m'\<in>set post. role m' \<noteq> ''user'')"
      then obtain pre m post where d: "xs @ [x] = pre @ m # post" "role m = ''user''"
        "content m = c" "\<forall>m'\<in>set post. role m' \<noteq> ''user''" by blast
      show "content x = c"
      proof (cases post rule: rev_cases)
        case Nil
        with d show ?thesis by simp
      next
        case (snoc ys y)
        with d(1) have "x = y" by simp
        with snoc d(4) True show ?thesis by simp
      qed
    next
      assume "content x = c"
      with True have "xs @ [x] = xs @ x # [] \<and> role x = ''user'' \<and> content x = c \<and>
        (\<forall>m'\<in>set []. role m' \<noteq> ''user'')" by simp
      then show "\<exists>pre m post. xs @ [x] = pre @ m # post \<and> role m = ''user'' \<and> content m = c \<and>
        (\<forall>m'\<in>set post. role m' \<noteq> ''user'')" by blast
    qed
    with True show ?thesis by (auto simp: last_user_of_snoc)
  next
    case False
    have "(\<exists>pre m post. xs @ [x] = pre @ m # post \<and> role m = ''user'' \<and> content m = c \<and>
        (\<forall>m'\<in>set post. role m' \<noteq> ''user'')) \<longleftrightarrow>
      (\<exists>pre m post. xs = pre @ m # post \<and> role m = ''user'' \<and> content m = c \<and>
        (\<forall>m'\<in>set post. role m' \<noteq> ''user''))"
    proof
      assume "\<exists>pre m post. xs @ [x] = pre @ m # post \<and> role m = ''user'' \<and> content m = c \<and>
        (\<forall>m'\<in>set post. role m' \<noteq> ''user'')"
      then obtain pre m post where d: "xs @ [x] = pre @ m # post" "role m = ''user''"
        "content m = c" "\<forall>m'\<in>set post. role m' \<noteq> ''user''" by blast
      show "\<exists>pre m post. xs = pre @ m # post \<and> role m = ''user'' \<and> content m = c \<and>
        (\<forall>m'\<in>set post. role m' \<noteq> ''user'')"
      proof (cases post rule: rev_cases)
        case Nil
        with d(1) have "x = m" by simp
        with d(2) False show ?thesis by simp
      next
        case (snoc ys y)
        with d(1) have "xs = pre @ m # ys" by simp
        moreover from snoc d(4) have "\<forall>m'\<in>set ys. role m' \<noteq> ''user''" by simp
        ultimately show ?thesis using d(2,3) by blast
      qed
    next
      assume "\<exists>pre m post. xs = pre @ m # post \<and> role m = ''user'' \<and> content m = c \<and>
        (\<forall>m'\<in>set post. role m' \<noteq> ''user'')"
      then obtain pre m post where d: "xs = pre @ m # post" "role m = ''user''"
        "content m = c" "\<forall>m'\<in>set post. role m' \<noteq> ''user''" by blast
      from d(1) have "xs @ [x] = pre @ m # (post @ [x])" by simp
      moreover from d(4) False have "\<forall>m'\<in>set (post @ [x]). role m' \<noteq> ''user''" by simp
      ultimately show "\<exists>pre m post. xs @ [x] = pre @ m # post \<and> role m = ''user'' \<and> content m = c \<and>
        (\<forall>m'\<in>set post. role m' \<noteq> ''user'')" using d(2,3) by blast
    qed
    with False snoc.IH show ?thesis by (simp add: last_user_of_snoc)
  qed
qed

lemma augment_noted:
  "hist = Some h \<Longrightarrow> last_user_of h = Some c \<Longrightarrow> c \<noteq> [] \<Longrightarrow> c \<noteq> user_msg \<Longrightarrow> length c < 120 \<Longrightarrow>
     augment user_msg hist rep = rep @ '' Also noted: '' @ [CHR 0x27] @ c @ [CHR 0x27] @ ''.''"
  by (auto simp: augment_def also_noted_def last_user_of_def)

lemma augment_plain:
  "\<not> (\<exists>h c. hist = Some h \<and> last_user_of h = Some c \<and> c \<noteq> [] \<and> c \<noteq> user_msg \<and> length c < 120) \<Longrightarrow>
     augment user_msg hist rep = rep"
  by (auto simp: augment_def split: option.splits)

text \<open>
  C5, as stated, fails. With the message \<open>plan\<close> and a history whose only entry is a user
  message of empty content, the most recent user entry differs from the message and is
  shorter than 120 characters, and still no note is appended: the code appends a note only
  for a non-empty content. And the content is compared with the trimmed message: with the
  message \<open>" plan "\<close> and the user entry \<open>" plan "\<close>, equal to the message as sent, the
  note is appended.
\<close>

theorem history_note_empty_content_counterexample:
  "last_user_of [\<lparr>role = ''user'', content = []\<rparr>] = Some [] \<and>
   [] \<noteq> ''plan'' \<and> length ([] :: string) < 120 \<and>
   chat_endpoint \<lparr>message = ''plan'', history = Some [\<lparr>role = ''user'', content = []\<rparr>]\<rparr> =
     Inr \<lparr>reply = default_reply\<rparr> \<and>
   last_user_of [\<lparr>role = ''user'', content = '' plan ''\<rparr>] = Some '' plan '' \<and>
   chat_endpoint \<lparr>message = '' plan '', history = Some [\<lparr>role = ''user'', content = '' plan ''\<rparr>]\<rparr> =
     Inr \<lparr>reply = default_reply @ '' Also noted: ' plan '.''\<rparr>"
  by (simp add: chat_endpoint_def strip_def is_space_def lower_def lower_char_def char_of_eq_iff
      base_reply_def any_in_def augment_def last_user_of_def also_noted_def)

text \<open>
  C5, amended. For every valid chat request the note is appended to the reply if and only
  if there is a history, its most recent entry with role \<open>user\<close> has a non-empty content,
  that content differs from the trimmed current message, and it is shorter than 120
  characters; the note is then \<open> Also noted: '<content>'.\<close> and otherwise the reply is
  the selected text alone. The witness holds the examples: the message \<open>plan\<close> with the
  user entry \<open>make it fast\<close> gets a reply ending with \<open>Also noted: 'make it fast'.\<close>,
  no note is appended when the user entry equals the message, and none when its content
  has 120 characters.
\<close>

theorem history_note_iff:
  assumes "strip (message req) \<noteq> []"
  shows "\<exists>resp. chat_endpoint req = Inr resp \<and>
     ((\<exists>h c. history req = Some h \<and> last_user_of h = Some c \<and>
          c \<noteq> [] \<and> c \<noteq> strip (message req) \<and> length c < 120 \<and>
          reply resp = base_reply (lower (strip (message req))) @
            '' Also noted: '' @ [CHR 0x27] @ c @ [CHR 0x27] @ ''.'') \<or>
      (\<not> (\<exists>h c. history req = Some h \<and> last_user_of h = Some c \<and>
          c \<noteq> [] \<and> c \<noteq> strip (message req) \<and> length c < 120) \<and>
       reply resp = base_reply (lower (strip (message req)))))"
proof -
  let ?u = "strip (message req)"
  let ?B = "base_reply (lower ?u)"
  have run: "chat_endpoint req = Inr \<lparr>reply = augment ?u (history req) ?B\<rparr>"
    using assms by (rule chat_endpoint_valid)
  show ?thesis
  proof (cases "\<exists>h c. history req = Some h \<and> last_user_of h = Some c \<and>
          c \<noteq> [] \<and> c \<noteq> ?u \<and> length c < 120")
    case True
    then obtain h c where hc: "history req = Some h" "last_user_of h = Some c"
      "c \<noteq> []" "c \<noteq> ?u" "length c < 120" by blast
    then have "augment ?u (history req) ?B = ?B @ '' Also noted: '' @ [CHR 0x27] @ c @ [CHR 0x27] @ ''.''"
      by (rule augment_noted)
    with run hc show ?thesis by auto
  next
    case False
    then have "augment ?u (history req) ?B = ?B" by (rule augment_plain)
    with run False show ?thesis by auto
  qed
qed


theorem history_note_iff_witness:
  "strip ''plan'' = ''plan'' \<and>
   last_user_of [\<lparr>role = ''user'', content = ''make it fast''\<rparr>] = Some ''make it fast'' \<and>
   (\<exists>resp. chat_endpoint
        \<lparr>message = ''plan'', history = Some [\<lparr>role = ''user'', content = ''make it fast''\<rparr>]\<rparr> =
        Inr resp \<and>
      reply resp = default_reply @ '' Also noted: 'make it fast'.'' \<and>
      suffix ''Also noted: 'make it fast'.'' (reply resp)) \<and>
   chat_endpoint \<lparr>message = ''plan'', history = Some [\<lparr>role = ''user'', content = ''plan''\<rparr>]\<rparr> =
     Inr \<lparr>reply = default_reply\<rparr> \<and>
   chat_endpoint
       \<lparr>message = ''plan'',
          history = Some [\<lparr>role = ''user'', content = replicate 120 CHR ''a''\<rparr>]\<rparr> =
     Inr \<lparr>reply = default_reply\<rparr> \<and>
   chat_endpoint
       \<lparr>message = ''plan'',
          history = Some [\<lparr>role = ''user'', content = ''make it fast''\<rparr>,
                          \<lparr>role = ''assistant'', content = ''ok''\<rparr>]\<rparr> =
     Inr \<lparr>reply = default_reply @ '' Also noted: 'make it fast'.''\<rparr>"
proof -
  let ?req = "\<lparr>message = ''plan'', history = Some [\<lparr>role = ''user'', content = ''make it fast''\<rparr>]\<rparr>"
  have s: "strip ''plan'' = ''plan''" by (simp add: strip_def is_space_def)
  then have hyp: "strip (message ?req) \<noteq> []" by simp
  have l: "last_user_of [\<lparr>role = ''user'', content = ''make it fast''\<rparr>] = Some ''make it fast''"
    by (simp add: last_user_of_def)
  have b: "base_reply (lower ''plan'') = default_reply"
    by (simp add: lower_def lower_char_def base_reply_def any_in_def)
  from history_note_iff [OF hyp] obtain resp where
    r: "chat_endpoint ?req = Inr resp" and
    d: "(\<exists>h c. history ?req = Some h \<and> last_user_of h = Some c \<and>
          c \<noteq> [] \<and> c \<noteq> strip (message ?req) \<and> length c < 120 \<and>
          reply resp = base_reply (lower (strip (message ?req))) @
            '' Also noted: '' @ [CHR 0x27] @ c @ [CHR 0x27] @ ''.'') \<or>
      (\<not> (\<exists>h c. history ?req = Some h \<and> last_user_of h = Some c \<and>
          c \<noteq> [] \<and> c \<noteq> strip (message ?req) \<and> length c < 120) \<and>
       reply resp = base_reply (lower (strip (message ?req))))"
    by blast
  from d s l b have rep: "reply resp = default_reply @ '' Also noted: 'make it fast'.''"
    by auto
  then have "suffix ''Also noted: 'make it fast'.'' (reply resp)"
    by (simp add: suffix_def)
  with r rep have first: "\<exists>resp. chat_endpoint ?req = Inr resp \<and>
      reply resp = default_reply @ '' Also noted: 'make it fast'.'' \<and>
      suffix ''Also noted: 'make it fast'.'' (reply resp)" by blast
  have same: "chat_endpoint \<lparr>message = ''plan'', history = Some [\<lparr>role = ''user'', content = ''plan''\<rparr>]\<rparr> =
     Inr \<lparr>reply = default_reply\<rparr>"
    by (simp add: chat_endpoint_def s b augment_def last_user_of_def)
  have long: "chat_endpoint
       \<lparr>message = ''plan'',
          history = Some [\<lparr>role = ''user'', content = replicate 120 CHR ''a''\<rparr>]\<rparr> =
     Inr \<lparr>reply = default_reply\<rparr>"
    by (simp add: chat_endpoint_def s b augment_def last_user_of_def)
  have older: "chat_endpoint
       \<lparr>message = ''plan'',
          history = Some [\<lparr>role = ''user'', content = ''make it fast''\<rparr>,
                          \<lparr>role = ''assistant'', content = ''ok''\<rparr>]\<rparr> =
     Inr \<lparr>reply = default_reply @ '' Also noted: 'make it fast'.''\<rparr>"
    by (simp add: chat_endpoint_def s b augment_def last_user_of_def also_noted_def)
  from s l first same long older show ?thesis by (intro conjI)
qed

text \<open>
  C10. The content of the most recent user entry is compared as it is, neither trimmed nor
  lower-cased, with the trimmed current message, by equality of strings: a non-empty content
  shorter than 120 characters is noted exactly when it is not that string. So a content that
  equals the message only up to surrounding whitespace (\<open>" plan "\<close> for the message
  \<open>plan\<close>) or up to letter case (\<open>Plan\<close>) is still noted.
\<close>

theorem history_note_compares_raw_content:
  "(\<forall>(req :: chat_request) h c.
      strip (message req) \<noteq> [] \<and> history req = Some h \<and> last_user_of h = Some c \<and>
      c \<noteq> [] \<and> length c < 120 \<longrightarrow>
      chat_endpoint req =
        Inr \<lparr>reply =
          (if c = strip (message req) then base_reply (lower (strip (message req)))
           else base_reply (lower (strip (message req))) @
             '' Also noted: '' @ [CHR 0x27] @ c @ [CHR 0x27] @ ''.'')\<rparr>) \<and>
   strip '' plan '' = strip ''plan'' \<and>
   chat_endpoint \<lparr>message = ''plan'', history = Some [\<lparr>role = ''user'', content = '' plan ''\<rparr>]\<rparr> =
     Inr \<lparr>reply = default_reply @ '' Also noted: ' plan '.''\<rparr> \<and>
   lower ''Plan'' = lower ''plan'' \<and>
   chat_endpoint \<lparr>message = ''plan'', history = Some [\<lparr>role = ''user'', content = ''Plan''\<rparr>]\<rparr> =
     Inr \<lparr>reply = default_reply @ '' Also noted: 'Plan'.''\<rparr>"
proof (intro conjI allI impI)
  fix req :: chat_request and h c
  assume a: "strip (message req) \<noteq> [] \<and> history req = Some h \<and> last_user_of h = Some c \<and>
      c \<noteq> [] \<and> length c < 120"
  let ?u = "strip (message req)"
  let ?B = "base_reply (lower ?u)"
  from a have run: "chat_endpoint req = Inr \<lparr>reply = augment ?u (history req) ?B\<rparr>"
    by (simp add: chat_endpoint_valid)
  show "chat_endpoint req =
        Inr \<lparr>reply = (if c = ?u then ?B
           else ?B @ '' Also noted: '' @ [CHR 0x27] @ c @ [CHR 0x27] @ ''.'')\<rparr>"
  proof (cases "c = ?u")
    case True
    with a have "augment ?u (history req) ?B = ?B" by (simp add: augment_def)
    with run True show ?thesis by simp
  next
    case False
    with a have "augment ?u (history req) ?B =
        ?B @ '' Also noted: '' @ [CHR 0x27] @ c @ [CHR 0x27] @ ''.''"
      by (simp add: augment_noted)
    with run False show ?thesis by simp
  qed
qed (simp_all add: chat_endpoint_def strip_def is_space_def lower_def lower_char_def char_of_eq_iff
      base_reply_def any_in_def augment_def last_user_of_def also_noted_def)

theorem history_note_compares_raw_content_witness:
  "strip ''plan'' = ''plan'' \<and>
   last_user_of [\<lparr>role = ''user'', content = ''PLAN ''\<rparr>] = Some ''PLAN '' \<and>
   length ''PLAN '' < 120 \<and>
   lower (strip ''PLAN '') = lower (strip ''plan'') \<and>
   chat_endpoint \<lparr>message = ''plan'', history = Some [\<lparr>role = ''user'', content = ''PLAN ''\<rparr>]\<rparr> =
     Inr \<lparr>reply = default_reply @ '' Also noted: 'PLAN '.''\<rparr>"
proof -
  let ?req = "\<lparr>message = ''plan'', history = Some [\<lparr>role = ''user'', content = ''PLAN ''\<rparr>]\<rparr>"
  have s: "strip ''plan'' = ''plan''" by (simp add: strip_def is_space_def)
  have l: "last_user_of [\<lparr>role = ''user'', content = ''PLAN ''\<rparr>] = Some ''PLAN ''"
    by (simp add: last_user_of_def)
  have n: "length ''PLAN '' < 120" by simp
  have e: "lower (strip ''PLAN '') = lower (strip ''plan'')"
    by (simp add: strip_def is_space_def lower_def lower_char_def char_of_eq_iff)
  have b: "base_reply (lower ''plan'') = default_reply"
    by (simp add: lower_def lower_char_def base_reply_def any_in_def)
  have hyp: "strip (message ?req) \<noteq> [] \<and> history ?req = Some [\<lparr>role = ''user'', content = ''PLAN ''\<rparr>] \<and>
      last_user_of [\<lparr>role = ''user'', content = ''PLAN ''\<rparr>] = Some ''PLAN '' \<and>
      ''PLAN '' \<noteq> [] \<and> length ''PLAN '' < 120"
    using s l by simp
  from history_note_compares_raw_content have "\<forall>(req :: chat_request) h c.
      strip (message req) \<noteq> [] \<and> history req = Some h \<and> last_user_of h = Some c \<and>
      c \<noteq> [] \<and> length c < 120 \<longrightarrow>
      chat_endpoint req =
        Inr \<lparr>reply =
          (if c = strip (message req) then base_reply (lower (strip (message req)))
           else base_reply (lower (strip (message req))) @
             '' Also noted: '' @ [CHR 0x27] @ c @ [CHR 0x27] @ ''.'')\<rparr>" by (rule conjunct1)
  then have "strip (message ?req) \<noteq> [] \<and> history ?req = Some [\<lparr>role = ''user'', content = ''PLAN ''\<rparr>] \<and>
      last_user_of [\<lparr>role = ''user'', content = ''PLAN ''\<rparr>] = Some ''PLAN '' \<and>
      ''PLAN '' \<noteq> [] \<and> length ''PLAN '' < 120 \<longrightarrow>
      chat_endpoint ?req =
        Inr \<lparr>reply =
          (if ''PLAN '' = strip (message ?req) then base_reply (lower (strip (message ?req)))
           else base_reply (lower (strip (message ?req))) @
             '' Also noted: '' @ [CHR 0x27] @ ''PLAN '' @ [CHR 0x27] @ ''.'')\<rparr>" by blast
  with hyp have "chat_endpoint ?req =
        Inr \<lparr>reply =
          (if ''PLAN '' = strip (message ?req) then base_reply (lower (strip (message ?req)))
           else base_reply (lower (strip (message ?req))) @
             '' Also noted: '' @ [CHR 0x27] @ ''PLAN '' @ [CHR 0x27] @ ''.'')\<rparr>" by (rule rev_mp)
  with s b have "chat_endpoint ?req = Inr \<lparr>reply = default_reply @ '' Also noted: 'PLAN '.''\<rparr>"
    by simp
  with s l n e show ?thesis by (intro conjI)
qed

section \<open>Properties of the plan endpoint\<close>

text \<open>
  The two outcomes of the endpoint: the error 400 with the store untouched when the
  stripped idea is empty, and otherwise a response whose identifier is the one the store
  returned, or \<open>no-db\<close> when the call raised, with the store in the state that the one
  call to \<open>create_document\<close> left.
\<close>

lemma plan_endpoint_invalid:
  "strip (idea req) = [] \<Longrightarrow>
     plan_endpoint create_document req db = (Inl (HTTPException 400 ''Idea is required''), db)"
  by (simp add: plan_endpoint_def)

lemma plan_endpoint_valid:
  assumes "strip (idea req) \<noteq> []"
    and "fs = (case features req of None \<Rightarrow> [] | Some fs \<Rightarrow> fs)"
    and "g = \<lparr>gen_idea = strip (idea req), gen_features = fs, gen_status = ''planned'',
               gen_plan = build_plan (strip (idea req)) fs\<rparr>"
  shows "plan_endpoint create_document req db =
     (Inr \<lparr>resp_id = (case fst (create_document ''generation'' g db) of
                         Inl e \<Rightarrow> ''no-db'' | Inr i \<Rightarrow> i),
           resp_status = ''planned'',
           resp_plan = build_plan (strip (idea req)) fs\<rparr>,
      snd (create_document ''generation'' g db))"
  using assms by (simp add: plan_endpoint_def Let_def split: prod.split)

lemma plan_endpoint_Inr_iff:
  "(\<exists>resp. fst (plan_endpoint create_document req db) = Inr resp) \<longleftrightarrow> strip (idea req) \<noteq> []"
  by (cases "strip (idea req) = []")
    (simp_all add: plan_endpoint_invalid plan_endpoint_valid [OF _ refl refl])

lemma plan_endpoint_plan:
  "fst (plan_endpoint create_document req db) = Inr resp \<Longrightarrow>
     resp_plan resp =
       build_plan (strip (idea req)) (case features req of None \<Rightarrow> [] | Some fs \<Rightarrow> fs) \<and>
     resp_status resp = ''planned''"
  by (cases "strip (idea req) = []")
    (auto simp add: plan_endpoint_invalid plan_endpoint_valid [OF _ refl refl])

lemma keys_build_plan:
  "keys (build_plan i fs) = [''summary'', ''frontend'', ''backend'', ''features'', ''next_steps'']"
  by (simp add: build_plan_def)

lemma get_build_plan_summary:
  "get (build_plan i fs) ''summary'' = Some (JStr (''Plan to build: '' @ i))"
  by (simp add: build_plan_def)

lemma get_build_plan_features:
  "get (build_plan i fs) ''features'' = Some (JList (map JStr fs))"
  by (simp add: build_plan_def)

lemma get_build_plan_fixed:
  "k \<noteq> ''summary'' \<Longrightarrow> k \<noteq> ''features'' \<Longrightarrow> get (build_plan i fs) k = get (build_plan i' fs') k"
  by (simp add: build_plan_def)

lemma get_build_plan_present:
  "get (build_plan i fs) ''frontend'' \<noteq> None"
  "get (build_plan i fs) ''backend'' \<noteq> None"
  "get (build_plan i fs) ''next_steps'' \<noteq> None"
  by (simp_all add: build_plan_def)

lemma logged_apply:
  "logged cd c g (db, calls) = (fst (cd c g db), (snd (cd c g db), calls @ [(c, g)]))"
  by (simp add: logged_def split: prod.split)

text \<open>
  C1. For every plan request whose idea is non-empty after trimming, a response is
  returned even when the call to \<open>create_document\<close> raises, whatever the exception: the
  failure is not propagated, the identifier of the response is the string \<open>no-db\<close>, the
  status is \<open>planned\<close>, and the plan is the one that is returned when the call succeeds
  (then with the identifier that the store assigned).
\<close>

theorem plan_persistence_failure_absorbed:
  fixes create_document :: "'db create_document"
  assumes "strip (idea req) \<noteq> []"
    and "fs = (case features req of None \<Rightarrow> [] | Some fs \<Rightarrow> fs)"
    and "g = \<lparr>gen_idea = strip (idea req), gen_features = fs, gen_status = ''planned'',
               gen_plan = build_plan (strip (idea req)) fs\<rparr>"
    and "fst (create_document ''generation'' g db) = Inl e"
  shows "\<exists>resp. fst (plan_endpoint create_document req db) = Inr resp \<and>
     resp_id resp = ''no-db'' \<and> resp_status resp = ''planned'' \<and>
     (\<forall>(cd' :: 'db create_document) db' i. fst (cd' ''generation'' g db') = Inr i \<longrightarrow>
        fst (plan_endpoint cd' req db') =
          Inr \<lparr>resp_id = i, resp_status = ''planned'', resp_plan = resp_plan resp\<rparr>)"
proof -
  let ?resp = "\<lparr>resp_id = ''no-db'', resp_status = ''planned'',
                 resp_plan = build_plan (strip (idea req)) fs\<rparr>"
  have "fst (plan_endpoint create_document req db) = Inr ?resp"
    using assms(4) by (simp add: plan_endpoint_valid [OF assms(1-3)])
  moreover have "fst (plan_endpoint cd' req db') =
      Inr \<lparr>resp_id = i, resp_status = ''planned'', resp_plan = resp_plan ?resp\<rparr>"
    if "fst (cd' ''generation'' g db') = Inr i" for cd' :: "'db create_document" and db' i
    using that by (simp add: plan_endpoint_valid [OF assms(1-3)])
  ultimately show ?thesis by (intro exI [where x = ?resp]) simp
qed

theorem plan_persistence_failure_absorbed_witness:
  "strip '' todo app '' = ''todo app'' \<and>
   fst (store_down ''generation''
         \<lparr>gen_idea = ''todo app'', gen_features = [''login''], gen_status = ''planned'',
            gen_plan = build_plan ''todo app'' [''login'']\<rparr> ()) =
     Inl (Exception ''database unavailable'') \<and>
   fst (plan_endpoint store_down \<lparr>idea = '' todo app '', features = Some [''login'']\<rparr> ()) =
     Inr \<lparr>resp_id = ''no-db'', resp_status = ''planned'',
           resp_plan = build_plan ''todo app'' [''login'']\<rparr> \<and>
   fst (plan_endpoint store_ok \<lparr>idea = '' todo app '', features = Some [''login'']\<rparr> ()) =
     Inr \<lparr>resp_id = ''doc-1'', resp_status = ''planned'',
           resp_plan = build_plan ''todo app'' [''login'']\<rparr>"
proof -
  let ?req = "\<lparr>idea = '' todo app '', features = Some [''login'']\<rparr>"
  let ?g = "\<lparr>gen_idea = ''todo app'', gen_features = [''login''], gen_status = ''planned'',
            gen_plan = build_plan ''todo app'' [''login'']\<rparr>"
  have s: "strip '' todo app '' = ''todo app''" by (simp add: strip_def is_space_def)
  have h1: "strip (idea ?req) \<noteq> []" using s by simp
  have h2: "[''login''] = (case features ?req of None \<Rightarrow> [] | Some fs \<Rightarrow> fs)" by simp
  have h3: "?g = \<lparr>gen_idea = strip (idea ?req), gen_features = [''login''],
      gen_status = ''planned'', gen_plan = build_plan (strip (idea ?req)) [''login'']\<rparr>"
    using s by simp
  have h4: "fst (store_down ''generation'' ?g ()) = Inl (Exception ''database unavailable'')"
    by (simp add: store_down_def)
  have ok: "fst (store_ok ''generation'' ?g ()) = Inr ''doc-1''"
    by (simp add: store_ok_def)
  from plan_persistence_failure_absorbed
      [where create_document = store_down and db = "()", OF h1 h2 h3 h4]
  obtain resp where all: "fst (plan_endpoint store_down ?req ()) = Inr resp \<and>
     resp_id resp = ''no-db'' \<and> resp_status resp = ''planned'' \<and>
     (\<forall>(cd' :: unit create_document) db' i. fst (cd' ''generation'' ?g db') = Inr i \<longrightarrow>
        fst (plan_endpoint cd' ?req db') =
          Inr \<lparr>resp_id = i, resp_status = ''planned'', resp_plan = resp_plan resp\<rparr>)" ..
  note r = all [THEN conjunct1]
  note i = all [THEN conjunct2, THEN conjunct1]
  note t = all [THEN conjunct2, THEN conjunct2, THEN conjunct1]
  note o = all [THEN conjunct2, THEN conjunct2, THEN conjunct2]
  from plan_endpoint_plan [OF r] s have p: "resp_plan resp = build_plan ''todo app'' [''login'']"
    by simp
  from r i t p have down: "fst (plan_endpoint store_down ?req ()) =
     Inr \<lparr>resp_id = ''no-db'', resp_status = ''planned'',
           resp_plan = build_plan ''todo app'' [''login'']\<rparr>"
    by simp
  from o [rule_format, of store_ok "()" "''doc-1''", OF ok]
  have "fst (plan_endpoint store_ok ?req ()) =
     Inr \<lparr>resp_id = ''doc-1'', resp_status = ''planned'', resp_plan = resp_plan resp\<rparr>" .
  with p have up: "fst (plan_endpoint store_ok ?req ()) =
     Inr \<lparr>resp_id = ''doc-1'', resp_status = ''planned'',
           resp_plan = build_plan ''todo app'' [''login'']\<rparr>"
    by simp
  from s h4 down up show ?thesis by (intro conjI)
qed

text \<open>
  C2, as stated, fails for an idea with surrounding whitespace. The idea \<open>" "\<close> is not
  empty and the endpoint answers with the error 400, not with the status \<open>planned\<close>. The
  idea \<open>" x "\<close> gets the summary \<open>Plan to build: x\<close>, which is not
  \<open>Plan to build: \<close> followed by the idea as sent.
\<close>

theorem plan_raw_idea_counterexample:
  "'' '' \<noteq> [] \<and>
   fst (plan_endpoint store_ok \<lparr>idea = '' '', features = None\<rparr> ()) =
     Inl (HTTPException 400 ''Idea is required'') \<and>
   '' x '' \<noteq> [] \<and>
   fst (plan_endpoint store_ok \<lparr>idea = '' x '', features = None\<rparr> ()) =
     Inr \<lparr>resp_id = ''doc-1'', resp_status = ''planned'', resp_plan = build_plan ''x'' []\<rparr> \<and>
   get (build_plan ''x'' []) ''summary'' = Some (JStr ''Plan to build: x'') \<and>
   ''Plan to build: x'' \<noteq> ''Plan to build: '' @ '' x ''"
  by (simp add: plan_endpoint_def Let_def strip_def is_space_def store_ok_def get_build_plan_summary)

text \<open>
  C2, amended. For every plan request whose idea is non-empty after trimming, the endpoint
  returns the status \<open>planned\<close> and a plan whose summary is \<open>Plan to build: \<close> followed
  by the trimmed idea and whose features are exactly the list of the request, or the empty
  list when the request has none. This holds for every store, failing or not.
\<close>

theorem plan_status_summary_features:
  assumes "strip (idea req) \<noteq> []"
  shows "\<exists>resp. fst (plan_endpoint create_document req db) = Inr resp \<and>
     resp_status resp = ''planned'' \<and>
     get (resp_plan resp) ''summary'' = Some (JStr (''Plan to build: '' @ strip (idea req))) \<and>
     get (resp_plan resp) ''features'' =
       Some (JList (map JStr (case features req of None \<Rightarrow> [] | Some fs \<Rightarrow> fs)))"
proof -
  from assms obtain resp where r: "fst (plan_endpoint create_document req db) = Inr resp"
    using plan_endpoint_Inr_iff [of create_document req db] by blast
  from plan_endpoint_plan [OF r] have
    "resp_plan resp =
       build_plan (strip (idea req)) (case features req of None \<Rightarrow> [] | Some fs \<Rightarrow> fs)"
    "resp_status resp = ''planned''" by simp_all
  with r show ?thesis
    by (intro exI [where x = resp]) (simp add: get_build_plan_summary get_build_plan_features)
qed

theorem plan_status_summary_features_witness:
  "strip '' x '' = ''x'' \<and>
   (\<exists>resp. fst (plan_endpoint store_ok \<lparr>idea = '' x '', features = Some [''a'', ''b'']\<rparr> ()) = Inr resp \<and>
      resp_status resp = ''planned'' \<and>
      get (resp_plan resp) ''summary'' = Some (JStr ''Plan to build: x'') \<and>
      get (resp_plan resp) ''features'' = Some (JList [JStr ''a'', JStr ''b''])) \<and>
   (\<exists>resp. fst (plan_endpoint store_down \<lparr>idea = '' x '', features = None\<rparr> ()) = Inr resp \<and>
      resp_status resp = ''planned'' \<and>
      get (resp_plan resp) ''summary'' = Some (JStr ''Plan to build: x'') \<and>
      get (resp_plan resp) ''features'' = Some (JList []))"
proof -
  have s: "strip '' x '' = ''x''" by (simp add: strip_def is_space_def)
  have h1: "strip (idea \<lparr>idea = '' x '', features = Some [''a'', ''b'']\<rparr>) \<noteq> []"
    using s by simp
  have h2: "strip (idea \<lparr>idea = '' x '', features = None\<rparr>) \<noteq> []"
    using s by simp
  from plan_status_summary_features [OF h1, of store_ok "()"]
    plan_status_summary_features [OF h2, of store_down "()"] s
  show ?thesis by simp
qed

text \<open>
  C6. For every plan request whose idea is empty or consists only of whitespace, the
  endpoint fails with the HTTP error 400 (\<open>Idea is required\<close>) and makes no persistence
  attempt: the state of the store is the one before the request, for every gateway, and a
  gateway that records its invocations has recorded none. (In the example below, a request with
  the idea \<open>x\<close> does record one invocation.)
\<close>

theorem plan_empty_idea_rejected_without_persistence:
  assumes "\<forall>c\<in>set (idea req). is_space c"
  shows "plan_endpoint create_document req db =
       (Inl (HTTPException 400 ''Idea is required''), db) \<and>
     plan_endpoint (logged create_document) req (db, calls) =
       (Inl (HTTPException 400 ''Idea is required''), (db, calls))"
proof -
  from assms have "strip (idea req) = []" by (simp add: strip_Nil_iff)
  then show ?thesis by (simp add: plan_endpoint_invalid)
qed

theorem plan_empty_idea_rejected_without_persistence_witness:
  "strip ''   '' = [] \<and>
   plan_endpoint store_ok \<lparr>idea = ''   '', features = Some [''login'']\<rparr> () =
     (Inl (HTTPException 400 ''Idea is required''), ()) \<and>
   plan_endpoint (logged store_ok) \<lparr>idea = ''   '', features = Some [''login'']\<rparr> ((), []) =
     (Inl (HTTPException 400 ''Idea is required''), ((), [])) \<and>
   snd (snd (plan_endpoint (logged store_ok) \<lparr>idea = ''x'', features = None\<rparr> ((), []))) =
     [(''generation'', \<lparr>gen_idea = ''x'', gen_features = [], gen_status = ''planned'',
                         gen_plan = build_plan ''x'' []\<rparr>)]"
proof -
  have h: "\<forall>c\<in>set (idea \<lparr>idea = ''   '', features = Some [''login'']\<rparr>). is_space c"
    by (simp add: is_space_def)
  have s: "strip ''   '' = []" by (simp add: strip_def is_space_def)
  have one: "snd (snd (plan_endpoint (logged store_ok) \<lparr>idea = ''x'', features = None\<rparr> ((), []))) =
     [(''generation'', \<lparr>gen_idea = ''x'', gen_features = [], gen_status = ''planned'',
                         gen_plan = build_plan ''x'' []\<rparr>)]"
    by (simp add: plan_endpoint_def Let_def strip_def is_space_def logged_apply store_ok_def)
  from plan_empty_idea_rejected_without_persistence [OF h, of store_ok "()" "[]"] s one
  show ?thesis by simp
qed

text \<open>
  C7. Any two plans returned by the endpoint, for whatever ideas, features and stores,
  have the same five keys and agree on every key other than \<open>summary\<close> and
  \<open>features\<close>: the entries \<open>frontend\<close>, \<open>backend\<close> and \<open>next_steps\<close> are present
  and do not depend on the request.
\<close>

theorem plan_fixed_fields:
  assumes "fst (plan_endpoint cd1 req1 db1) = Inr resp1"
    and "fst (plan_endpoint cd2 req2 db2) = Inr resp2"
  shows "keys (resp_plan resp1) =
       [''summary'', ''frontend'', ''backend'', ''features'', ''next_steps''] \<and>
     keys (resp_plan resp2) = keys (resp_plan resp1) \<and>
     (\<forall>k. k \<noteq> ''summary'' \<and> k \<noteq> ''features'' \<longrightarrow>
        get (resp_plan resp1) k = get (resp_plan resp2) k) \<and>
     get (resp_plan resp1) ''frontend'' \<noteq> None \<and>
     get (resp_plan resp1) ''backend'' \<noteq> None \<and>
     get (resp_plan resp1) ''next_steps'' \<noteq> None"
proof -
  from plan_endpoint_plan [OF assms(1)] obtain i1 f1 where
    p1: "resp_plan resp1 = build_plan i1 f1" by blast
  from plan_endpoint_plan [OF assms(2)] obtain i2 f2 where
    p2: "resp_plan resp2 = build_plan i2 f2" by blast
  have "get (build_plan i1 f1) k = get (build_plan i2 f2) k"
    if "k \<noteq> ''summary'' \<and> k \<noteq> ''features''" for k
    using that by (simp add: get_build_plan_fixed [of k i1 f1 i2 f2])
  then show ?thesis
    unfolding p1 p2 by (simp add: keys_build_plan get_build_plan_present)
qed

theorem plan_fixed_fields_witness:
  "fst (plan_endpoint store_ok \<lparr>idea = ''shop'', features = Some [''cart'']\<rparr> ()) =
     Inr \<lparr>resp_id = ''doc-1'', resp_status = ''planned'', resp_plan = build_plan ''shop'' [''cart'']\<rparr> \<and>
   fst (plan_endpoint store_down \<lparr>idea = '' blog '', features = None\<rparr> ()) =
     Inr \<lparr>resp_id = ''no-db'', resp_status = ''planned'', resp_plan = build_plan ''blog'' []\<rparr> \<and>
   get (build_plan ''shop'' [''cart'']) ''frontend'' = get (build_plan ''blog'' []) ''frontend'' \<and>
   get (build_plan ''shop'' [''cart'']) ''backend'' = get (build_plan ''blog'' []) ''backend'' \<and>
   get (build_plan ''shop'' [''cart'']) ''next_steps'' = get (build_plan ''blog'' []) ''next_steps'' \<and>
   get (build_plan ''shop'' [''cart'']) ''summary'' \<noteq> get (build_plan ''blog'' []) ''summary'' \<and>
   get (build_plan ''shop'' [''cart'']) ''features'' \<noteq> get (build_plan ''blog'' []) ''features''"
proof -
  let ?r1 = "\<lparr>resp_id = ''doc-1'', resp_status = ''planned'', resp_plan = build_plan ''shop'' [''cart'']\<rparr>"
  let ?r2 = "\<lparr>resp_id = ''no-db'', resp_status = ''planned'', resp_plan = build_plan ''blog'' []\<rparr>"
  have a: "fst (plan_endpoint store_ok \<lparr>idea = ''shop'', features = Some [''cart'']\<rparr> ()) = Inr ?r1"
    by (simp add: plan_endpoint_def Let_def strip_def is_space_def store_ok_def)
  have b: "fst (plan_endpoint store_down \<lparr>idea = '' blog '', features = None\<rparr> ()) = Inr ?r2"
    by (simp add: plan_endpoint_def Let_def strip_def is_space_def store_down_def)
  from plan_fixed_fields [OF a b] have
    "\<forall>k. k \<noteq> ''summary'' \<and> k \<noteq> ''features'' \<longrightarrow>
        get (resp_plan ?r1) k = get (resp_plan ?r2) k" by blast
  then have fixed:
    "get (build_plan ''shop'' [''cart'']) ''frontend'' = get (build_plan ''blog'' []) ''frontend''"
    "get (build_plan ''shop'' [''cart'']) ''backend'' = get (build_plan ''blog'' []) ''backend''"
    "get (build_plan ''shop'' [''cart'']) ''next_steps'' = get (build_plan ''blog'' []) ''next_steps''"
    by simp_all
  have varies:
    "get (build_plan ''shop'' [''cart'']) ''summary'' \<noteq> get (build_plan ''blog'' []) ''summary''"
    "get (build_plan ''shop'' [''cart'']) ''features'' \<noteq> get (build_plan ''blog'' []) ''features''"
    by (simp_all add: get_build_plan_summary get_build_plan_features)
  from a b fixed varies show ?thesis by (intro conjI)
qed

text \<open>
  C9. For every plan request whose idea is non-empty after trimming, the trimmed idea is
  used throughout: the summary of the returned plan is \<open>Plan to build: \<close> followed by
  the idea stripped of surrounding whitespace, and the one call to \<open>create_document\<close>
  is for the collection \<open>generation\<close> with a record whose idea is the trimmed idea and
  whose plan is the returned plan.
\<close>

theorem plan_uses_trimmed_idea:
  assumes "strip (idea req) \<noteq> []"
  shows "\<exists>resp g.
     plan_endpoint (logged create_document) req (db, calls) =
       (Inr resp, (snd (create_document ''generation'' g db), calls @ [(''generation'', g)])) \<and>
     gen_idea g = strip (idea req) \<and>
     gen_plan g = resp_plan resp \<and>
     get (resp_plan resp) ''summary'' = Some (JStr (''Plan to build: '' @ strip (idea req)))"
proof -
  let ?fs = "case features req of None \<Rightarrow> [] | Some fs \<Rightarrow> fs"
  let ?g = "\<lparr>gen_idea = strip (idea req), gen_features = ?fs, gen_status = ''planned'',
             gen_plan = build_plan (strip (idea req)) ?fs\<rparr>"
  let ?resp = "\<lparr>resp_id = (case fst (create_document ''generation'' ?g db) of
                         Inl e \<Rightarrow> ''no-db'' | Inr i \<Rightarrow> i),
           resp_status = ''planned'',
           resp_plan = build_plan (strip (idea req)) ?fs\<rparr>"
  have "plan_endpoint (logged create_document) req (db, calls) =
       (Inr ?resp, (snd (create_document ''generation'' ?g db), calls @ [(''generation'', ?g)]))"
    by (simp add: plan_endpoint_valid [OF assms refl refl] logged_apply)
  then show ?thesis
    by (intro exI [where x = ?resp] exI [where x = ?g]) (simp add: get_build_plan_summary)
qed

theorem plan_uses_trimmed_idea_witness:
  "strip ''  todo app '' = ''todo app'' \<and>
   plan_endpoint (logged store_ok) \<lparr>idea = ''  todo app '', features = None\<rparr> ((), []) =
     (Inr \<lparr>resp_id = ''doc-1'', resp_status = ''planned'', resp_plan = build_plan ''todo app'' []\<rparr>,
      ((), [(''generation'',
             \<lparr>gen_idea = ''todo app'', gen_features = [], gen_status = ''planned'',
                gen_plan = build_plan ''todo app'' []\<rparr>)])) \<and>
   get (build_plan ''todo app'' []) ''summary'' = Some (JStr ''Plan to build: todo app'') \<and>
   ''todo app'' \<noteq> ''  todo app ''"
proof -
  let ?req = "\<lparr>idea = ''  todo app '', features = None\<rparr>"
  have s: "strip ''  todo app '' = ''todo app''" by (simp add: strip_def is_space_def)
  then have h: "strip (idea ?req) \<noteq> []" by simp
  from plan_uses_trimmed_idea [OF h, of store_ok "()" "[]"] obtain resp g where
    run: "plan_endpoint (logged store_ok) ?req ((), []) =
       (Inr resp, (snd (store_ok ''generation'' g ()), [] @ [(''generation'', g)]))" and
    gi: "gen_idea g = strip (idea ?req)" and
    sm: "get (resp_plan resp) ''summary'' = Some (JStr (''Plan to build: '' @ strip (idea ?req)))"
    by blast
  have ev: "plan_endpoint (logged store_ok) ?req ((), []) =
     (Inr \<lparr>resp_id = ''doc-1'', resp_status = ''planned'', resp_plan = build_plan ''todo app'' []\<rparr>,
      ((), [(''generation'',
             \<lparr>gen_idea = ''todo app'', gen_features = [], gen_status = ''planned'',
                gen_plan = build_plan ''todo app'' []\<rparr>)]))"
    by (simp add: plan_endpoint_def Let_def strip_def is_space_def logged_apply store_ok_def)
  from run ev have "resp = \<lparr>resp_id = ''doc-1'', resp_status = ''planned'',
      resp_plan = build_plan ''todo app'' []\<rparr>" by simp
  then have "resp_plan resp = build_plan ''todo app'' []" by simp
  with sm s have "get (build_plan ''todo app'' []) ''summary'' = Some (JStr ''Plan to build: todo app'')"
    by simp
  with s ev show ?thesis by simp
qed

end
